theory Spec2Isabelle
  imports Complex_Main "HOL-Library.AList"
begin

section \<open>Values shared by the three services\<close>

text \<open>
  The relay, the browser client and the publisher service exchange JSON text frames.
  A parsed frame is a JSON value. Numbers are only ever tested for being zero by the
  code modelled here (truthiness of \<open>parsedMessage.socketID\<close>), so an integer stands
  for a number. An object is the list of its own properties in enumeration order; the
  only property ever written (\<open>socketID\<close>) is not an array index, so a new one goes last
  and an existing one keeps its place: that is \<open>AList.update\<close>.
\<close>

datatype json =
    JNull
  | JBool bool
  | JNum int
  | JStr string
  | JArr "json list"
  | JObj "(string \<times> json) list"

text \<open>The exceptions the modelled code can raise.\<close>

datatype error = SyntaxError | TypeError | KeyError | SinkError

text \<open>
  A JavaScript value is \<open>undefined\<close> (\<open>None\<close>) or a JSON value. \<open>truthy\<close> is the test
  an \<open>if (v)\<close> performs.
\<close>

fun truthy :: "json option \<Rightarrow> bool" where
  "truthy None = False"
| "truthy (Some JNull) = False"
| "truthy (Some (JBool b)) = b"
| "truthy (Some (JNum n)) = (n \<noteq> 0)"
| "truthy (Some (JStr s)) = (s \<noteq> [])"
| "truthy (Some (JArr xs)) = True"
| "truthy (Some (JObj kvs)) = True"

text \<open>
  \<open>v.k\<close> for the keys the code reads (\<open>event\<close>, \<open>data\<close>, \<open>socketID\<close>; none of them
  is a built-in property of a string, number, boolean or array): reading a property of
  \<open>undefined\<close> or \<open>null\<close> throws a TypeError, an object yields its own property or
  \<open>undefined\<close>, every other value yields \<open>undefined\<close>.
\<close>

fun get_prop :: "json option \<Rightarrow> string \<Rightarrow> error + json option" where
  "get_prop None k = Inl TypeError"
| "get_prop (Some JNull) k = Inl TypeError"
| "get_prop (Some (JObj kvs)) k = Inr (map_of kvs k)"
| "get_prop (Some (JBool b)) k = Inr None"
| "get_prop (Some (JNum n)) k = Inr None"
| "get_prop (Some (JStr s)) k = Inr None"
| "get_prop (Some (JArr xs)) k = Inr None"

text \<open>
  \<open>data['socketID'] = v\<close> as the later \<open>JSON.stringify\<close> sees it. On \<open>undefined\<close>
  or \<open>null\<close> the assignment throws a TypeError. On an object it sets the property. The
  relay module is not in strict mode, so on a string, number or boolean the assignment is
  silently ignored; on an array it sets a named property, which \<open>JSON.stringify\<close> does
  not serialise.
\<close>

fun set_socketID :: "json option \<Rightarrow> json \<Rightarrow> error + json" where
  "set_socketID None v = Inl TypeError"
| "set_socketID (Some JNull) v = Inl TypeError"
| "set_socketID (Some (JObj kvs)) v = Inr (JObj (AList.update ''socketID'' v kvs))"
| "set_socketID (Some (JArr xs)) v = Inr (JArr xs)"
| "set_socketID (Some (JBool b)) v = Inr (JBool b)"
| "set_socketID (Some (JNum n)) v = Inr (JNum n)"
| "set_socketID (Some (JStr s)) v = Inr (JStr s)"


section \<open>The signaling relay\<close>

text \<open>
  A connection is identified by its socket object (a number here). \<open>clients\<close> is a
  JavaScript \<open>Map\<close> from id to socket: insertion ordered, \<open>set\<close> on an existing key
  replaces the value in place. \<open>sent\<close> records every \<open>wsClient.send\<close>, in order, as
  the destination socket and the JSON value that was stringified.
\<close>

type_synonym socket = nat

record relay =
  clients :: "(string \<times> socket) list"
  sent :: "(socket \<times> json) list"

text \<open>
  \<open>wss.on('connection', ...)\<close>: the id is
  \<open>Math.random().toString(36).substring(2, 15)\<close>; the string the random source yields
  is the parameter \<open>id\<close>. The handler stores it with \<open>clients.set(id, socket)\<close> and does
  not look whether the id is already in use.
\<close>

definition connection :: "relay \<Rightarrow> string \<Rightarrow> socket \<Rightarrow> relay" where
  "connection r ident socket = r\<lparr>clients := AList.update ident socket (clients r)\<rparr>"

fun findClientID :: "(string \<times> socket) list \<Rightarrow> socket \<Rightarrow> string option" where
  "findClientID [] val = None"
| "findClientID ((k, v) # m) val = (if v = val then Some k else findClientID m val)"

text \<open>
  \<open>clients.delete(socketClientID)\<close>: the key is a string or \<open>null\<close>; no key of the
  map is \<open>null\<close>, so deleting \<open>null\<close> removes nothing.
\<close>

definition clearClient :: "relay \<Rightarrow> socket \<Rightarrow> relay" where
  "clearClient r socket =
     (case findClientID (clients r) socket of
        None \<Rightarrow> r
      | Some socketClientID \<Rightarrow> r\<lparr>clients := AList.delete socketClientID (clients r)\<rparr>)"

definition onClose :: "relay \<Rightarrow> socket \<Rightarrow> relay" where
  "onClose r socket = clearClient r socket"

text \<open>\<open>send(wsClient, type, body)\<close> stringifies \<open>{event: type, data: body}\<close>.\<close>

definition send :: "relay \<Rightarrow> socket \<Rightarrow> string \<Rightarrow> json \<Rightarrow> relay" where
  "send r wsClient type body =
     r\<lparr>sent := sent r @ [(wsClient, JObj [(''event'', JStr type), (''data'', body)])]\<rparr>"

text \<open>
  \<open>clients.get(socketID)\<close>: the keys of the map are strings, so only a string can be
  found.
\<close>

fun clients_get :: "(string \<times> socket) list \<Rightarrow> json option \<Rightarrow> socket option" where
  "clients_get m (Some (JStr s)) = map_of m s"
| "clients_get m v = None"

text \<open>The resolved sender id as a JSON value: \<open>findClientID\<close> returns \<open>null\<close> when
  the socket is not in the map.\<close>

fun id_json :: "string option \<Rightarrow> json" where
  "id_json None = JNull"
| "id_json (Some k) = JStr k"

text \<open>
  The requested socket id: \<open>parsedMessage.socketID\<close> when that is truthy, else
  \<open>data.socketID\<close>.
\<close>

definition requested_id :: "json \<Rightarrow> error + json option" where
  "requested_id parsedMessage =
     (case get_prop (Some parsedMessage) ''data'' of
        Inl e \<Rightarrow> Inl e
      | Inr data \<Rightarrow>
          (case get_prop (Some parsedMessage) ''socketID'' of
             Inl e \<Rightarrow> Inl e
           | Inr rootID \<Rightarrow> if truthy rootID then Inr rootID else get_prop data ''socketID''))"

text \<open>
  \<open>onMessage(wss, socket, message)\<close>. The argument is the outcome of
  \<open>JSON.parse(message)\<close>: \<open>None\<close> when the text is not JSON (a SyntaxError). Nothing
  in the relay catches an exception, so \<open>Inl\<close> is an exception leaving the handler.
\<close>

definition onMessage :: "relay \<Rightarrow> socket \<Rightarrow> json option \<Rightarrow> error + relay" where
  "onMessage r socket message =
     (case message of
        None \<Rightarrow> Inl SyntaxError
      | Some parsedMessage \<Rightarrow>
          (case get_prop (Some parsedMessage) ''event'' of
             Inl e \<Rightarrow> Inl e
           | Inr type \<Rightarrow>
               (case get_prop (Some parsedMessage) ''data'' of
                  Inl e \<Rightarrow> Inl e
                | Inr data \<Rightarrow>
                    (let socketClientID = findClientID (clients r) socket in
                     (case requested_id parsedMessage of
                        Inl e \<Rightarrow> Inl e
                      | Inr socketID \<Rightarrow>
                          if type = Some (JStr ''webrtc_msg'') then
                            (let wsClient = clients_get (clients r) socketID in
                             (case set_socketID data (id_json socketClientID) of
                                Inl e \<Rightarrow> Inl e
                              | Inr data' \<Rightarrow>
                                  (case wsClient of
                                     Some c \<Rightarrow> Inr (send r c ''webrtc_msg'' data')
                                   | None \<Rightarrow> Inr r)))
                          else Inr r)))))"

text \<open>The sender id a receiver reads from a delivered frame: \<open>frame.data.socketID\<close>.\<close>

definition delivered_sender :: "json \<Rightarrow> error + json option" where
  "delivered_sender frame =
     (case get_prop (Some frame) ''data'' of
        Inl e \<Rightarrow> Inl e
      | Inr d \<Rightarrow> get_prop d ''socketID'')"



section \<open>The frame producer: ROS2ImageStreamer\<close>

text \<open>
  The side channel is a browser \<open>WebSocket\<close>; the streamer reads its \<open>readyState\<close>
  and \<open>bufferedAmount\<close>, which the browser changes between ticks.
\<close>

datatype ready_state = CONNECTING | OPEN | CLOSING | CLOSED

record websocket =
  readyState :: ready_state
  bufferedAmount :: nat

text \<open>The message of one frame; \<open>type\<close> is always \<open>image_frame\<close>.\<close>

record image_frame =
  imageData :: string
  width :: int
  height :: int
  encoding :: string
  timestamp :: int
  captureTime :: int

text \<open>What the streamer does to the world outside its own fields, in order.\<close>

datatype action =
    SetInterval nat
  | ClearInterval nat
  | WsClose
  | RemoveCanvas
  | WsSend image_frame

text \<open>
  The fields of a \<open>ROS2ImageStreamer\<close>. \<open>videoElement\<close> says whether the video
  element is non-null, \<open>canvasParent\<close> whether the hidden canvas is still attached to
  the document (\<open>canvas.parentNode\<close>). Times are \<open>Date.now()\<close> milliseconds.
  \<open>scaleFactor\<close> and \<open>quality\<close> are JavaScript numbers, exact rationals here.
\<close>

record streamer =
  videoElement :: bool
  ws :: "websocket option"
  canvasParent :: bool
  canvasWidth :: int
  canvasHeight :: int
  isStreaming :: bool
  frameRate :: int
  intervalId :: "nat option"
  lastFrameTime :: int
  frameDropCount :: nat
  scaleFactor :: rat
  quality :: rat
  actions :: "action list"

text \<open>The constructor, with \<open>setupCanvas()\<close>; a new canvas is 300 by 150.\<close>

definition new_streamer :: "bool \<Rightarrow> streamer" where
  "new_streamer video =
     \<lparr>videoElement = video, ws = None, canvasParent = True, canvasWidth = 300,
      canvasHeight = 150, isStreaming = False, frameRate = 8, intervalId = None,
      lastFrameTime = 0, frameDropCount = 0, scaleFactor = 1 / 2, quality = 3 / 10,
      actions = []\<rparr>"

text \<open>
  \<open>startStreaming(frameRate)\<close>; \<open>timer\<close> is the id \<open>setInterval\<close> returns.
\<close>

definition startStreaming :: "streamer \<Rightarrow> int \<Rightarrow> nat \<Rightarrow> streamer" where
  "startStreaming s fr timer =
     (if isStreaming s then s
      else if (case ws s of None \<Rightarrow> True | Some w \<Rightarrow> readyState w \<noteq> OPEN) then s
      else if \<not> videoElement s then s
      else s\<lparr>frameRate := fr, isStreaming := True, lastFrameTime := 0,
             frameDropCount := 0, intervalId := Some timer,
             actions := actions s @ [SetInterval timer]\<rparr>)"

text \<open>\<open>stopStreaming()\<close>; \<open>if (this.intervalId)\<close> is false for no id and for id 0.\<close>

definition stopStreaming :: "streamer \<Rightarrow> streamer" where
  "stopStreaming s =
     (if \<not> isStreaming s then s
      else (case intervalId s of
              None \<Rightarrow> s\<lparr>isStreaming := False\<rparr>
            | Some i \<Rightarrow>
                if i \<noteq> 0
                then s\<lparr>isStreaming := False, intervalId := None,
                       actions := actions s @ [ClearInterval i]\<rparr>
                else s\<lparr>isStreaming := False\<rparr>))"

definition disconnect :: "streamer \<Rightarrow> streamer" where
  "disconnect s =
     (let s1 = stopStreaming s;
          s2 = (case ws s1 of
                  None \<Rightarrow> s1
                | Some w \<Rightarrow> s1\<lparr>ws := None, actions := actions s1 @ [WsClose]\<rparr>)
      in if canvasParent s2
         then s2\<lparr>canvasParent := False, actions := actions s2 @ [RemoveCanvas]\<rparr>
         else s2)"

text \<open>\<open>ws.onclose\<close>, as set up by \<open>connect()\<close>.\<close>

definition ws_onclose :: "streamer \<Rightarrow> streamer" where
  "ws_onclose s =
     s\<lparr>isStreaming := False,
       ws := (case ws s of None \<Rightarrow> None | Some w \<Rightarrow> Some (w\<lparr>readyState := CLOSED\<rparr>))\<rparr>"

text \<open>
  \<open>timeSinceLastFrame < expectedInterval * 0.8\<close> with
  \<open>expectedInterval = 1000 / this.frameRate\<close>. The source computes in doubles; the model
  computes exactly. For frame rate 0 the quotient is \<open>Infinity\<close>, which every elapsed
  time is below.
\<close>

definition too_soon :: "int \<Rightarrow> int \<Rightarrow> bool" where
  "too_soon timeSinceLastFrame fr =
     (if fr = 0 then True
      else (of_int timeSinceLastFrame :: rat) < (1000 / of_int fr) * (8 / 10))"

text \<open>
  What one tick reads from outside: the clock, the video element, and the outcome of
  drawing and encoding (\<open>None\<close> when \<open>drawImage\<close> or \<open>toDataURL\<close> throws, else the
  base64 text after the comma of the data URL).
\<close>

record tick =
  now :: int
  videoReadyState :: nat
  videoWidth :: int
  videoHeight :: int
  capture :: "string option"

definition captureAndSendFrame :: "streamer \<Rightarrow> tick \<Rightarrow> streamer" where
  "captureAndSendFrame s t =
     (case ws s of
        None \<Rightarrow> s
      | Some w \<Rightarrow>
          if \<not> isStreaming s \<or> \<not> videoElement s then s
          else if bufferedAmount w > 1024 * 50
          then s\<lparr>frameDropCount := frameDropCount s + 1\<rparr>
          else if too_soon (now t - lastFrameTime s) (frameRate s)
          then s\<lparr>frameDropCount := frameDropCount s + 1\<rparr>
          else if videoReadyState t < 2 then s
          else if videoWidth t = 0 \<or> videoHeight t = 0 then s
          else
            (let targetWidth = \<lfloor>of_int (videoWidth t) * scaleFactor s\<rfloor>;
                 targetHeight = \<lfloor>of_int (videoHeight t) * scaleFactor s\<rfloor>;
                 s1 = s\<lparr>lastFrameTime := now t, canvasWidth := targetWidth,
                         canvasHeight := targetHeight\<rparr>
             in (case capture t of
                   None \<Rightarrow> s1
                 | Some base64Data \<Rightarrow>
                     if readyState w = OPEN
                     then s1\<lparr>actions := actions s1 @
                            [WsSend \<lparr>imageData = base64Data, width = targetWidth,
                                     height = targetHeight, encoding = ''jpeg'',
                                     timestamp = now t, captureTime = now t\<rparr>]\<rparr>
                     else s1)))"


section \<open>The frame consumer: ROS2ImagePublisherCompressed\<close>

text \<open>
  The record handed to \<open>publisher.publish\<close>. The bytes are those of the decoded
  base64 text.
\<close>

record CompressedImage =
  stamp_sec :: int
  stamp_nanosec :: int
  frame_id :: string
  format :: string
  data :: "nat list"

text \<open>
  The service's fields the frame path uses. \<open>publisher\<close> says whether the ROS2
  publisher is non-null. \<open>published\<close> lists the records for which
  \<open>publisher.publish\<close> returned, in order.
\<close>

record consumer =
  isInitialized :: bool
  publisher :: bool
  isProcessing :: bool
  dropCount :: nat
  lastProcessTime :: int
  lastPublishTime :: int
  minPublishInterval :: rat
  published :: "CompressedImage list"

text \<open>
  The constructor leaves the service uninitialised; \<open>initialize()\<close> creates the
  publisher, and \<open>main()\<close> opens the WebSocket server only after it.
\<close>

definition new_consumer :: consumer where
  "new_consumer =
     \<lparr>isInitialized = False, publisher = False, isProcessing = False, dropCount = 0,
      lastProcessTime = 0, lastPublishTime = 0, minPublishInterval = 100,
      published = []\<rparr>"

definition initialize :: "consumer \<Rightarrow> consumer" where
  "initialize s = s\<lparr>publisher := True, isInitialized := True\<rparr>"

text \<open>
  One arriving frame: \<open>fdata\<close> is \<open>message.data\<close> (\<open>None\<close> when it is
  \<open>undefined\<close> or \<open>null\<close>), and in it \<open>jpeg\<close> is what
  \<open>Buffer.from(frameData.imageData, 'base64')\<close> yields (\<open>None\<close> when it throws: the
  field is missing or not a string, array or buffer). The other fields of the frame
  (\<open>width\<close>, \<open>height\<close>, \<open>captureTime\<close>, \<open>timestamp\<close>) only go into the log line.
  \<open>arrivedAt\<close> (the source's \<open>now\<close>), \<open>startTime\<close> and \<open>endTime\<close> are the three
  readings of \<open>Date.now()\<close>.
\<close>

record frame_data =
  jpeg :: "nat list option"

record arrival =
  fdata :: "frame_data option"
  arrivedAt :: int
  startTime :: int
  endTime :: int

text \<open>JavaScript's \<open>%\<close> takes the sign of the dividend.\<close>

definition js_rem :: "int \<Rightarrow> int \<Rightarrow> int" where
  "js_rem a b = sgn a * (\<bar>a\<bar> mod \<bar>b\<bar>)"

definition compressedImageMsg :: "int \<Rightarrow> nat list \<Rightarrow> CompressedImage" where
  "compressedImageMsg t jpegBuffer =
     \<lparr>stamp_sec = t div 1000, stamp_nanosec = js_rem t 1000 * 1000000,
      frame_id = ''camera_frame'', format = ''jpeg'', data = jpegBuffer\<rparr>"

text \<open>
  The body of the \<open>try\<close> block. \<open>sink\<close> says for which records
  \<open>publisher.publish\<close> returns; for the others it throws.
\<close>

definition try_publish ::
  "(CompressedImage \<Rightarrow> bool) \<Rightarrow> consumer \<Rightarrow> arrival \<Rightarrow> error + consumer" where
  "try_publish sink s a =
     (case fdata a of
        None \<Rightarrow> Inl TypeError
      | Some frameData \<Rightarrow>
          (case jpeg frameData of
             None \<Rightarrow> Inl TypeError
           | Some jpegBuffer \<Rightarrow>
               if sink (compressedImageMsg (arrivedAt a) jpegBuffer)
               then Inr (s\<lparr>published := published s @ [compressedImageMsg (arrivedAt a) jpegBuffer],
                           lastProcessTime := endTime a - startTime a\<rparr>)
               else Inl SinkError))"

text \<open>
  \<open>publishCompressedImageFrame(frameData)\<close>. The \<open>catch\<close> logs the exception, the
  \<open>finally\<close> clears the flag; no statement outside the \<open>try\<close> can throw.
\<close>

definition publishCompressedImageFrame ::
  "(CompressedImage \<Rightarrow> bool) \<Rightarrow> consumer \<Rightarrow> arrival \<Rightarrow> consumer" where
  "publishCompressedImageFrame sink s a =
     (if \<not> isInitialized s \<or> \<not> publisher s then s
      else if of_int (arrivedAt a - lastPublishTime s) < minPublishInterval s
      then s\<lparr>dropCount := dropCount s + 1\<rparr>
      else if isProcessing s
      then s\<lparr>dropCount := dropCount s + 1\<rparr>
      else
        (let s1 = s\<lparr>isProcessing := True, lastPublishTime := arrivedAt a\<rparr>;
             s2 = (case try_publish sink s1 a of Inl e \<Rightarrow> s1 | Inr s' \<Rightarrow> s')
         in s2\<lparr>isProcessing := False\<rparr>))"

text \<open>Frames are handled one after the other, in arrival order.\<close>

fun feed :: "(CompressedImage \<Rightarrow> bool) \<Rightarrow> consumer \<Rightarrow> arrival list \<Rightarrow> consumer" where
  "feed sink s [] = s"
| "feed sink s (a # as) = feed sink (publishCompressedImageFrame sink s a) as"



section \<open>The browser client: DroneStreamManager and DroneStream\<close>

text \<open>
  Objects live in a store: a \<open>DroneStream\<close> is named by its index in \<open>streams\<close>, a
  \<open>ROS2ImageStreamer\<close> by its index in \<open>streamers\<close>, where it is kept with the
  index of the \<open>DroneStream\<close> that constructed it. An object that nothing names any
  more stays in the store. \<open>streamObj\<close> says whether \<open>document.getElementById\<close>
  found the video element. The field \<open>peerConnection\<close> does not exist when
  \<open>new RTCPeerConnection\<close> threw in the constructor (\<open>PcUndefined\<close>), holds the
  connection (\<open>PcOpen\<close>), or is \<open>null\<close> after \<open>closeDroneStream\<close> has closed the
  connection (\<open>PcNull\<close>).
\<close>

datatype pc_field = PcUndefined | PcOpen | PcNull

record DroneStream =
  droneSocketID :: string
  streamObj :: bool
  ros2Streamer :: "nat option"
  peerConnection :: pc_field

text \<open>
  \<open>ongoingStreams\<close> is the static dictionary, a plain object: its own entries, and
  in \<open>ongoingProto\<close> its prototype when that is no longer \<open>Object.prototype\<close> but a
  \<open>DroneStream\<close> (an assignment to the key \<open>__proto__\<close> does not make an entry,
  it sets the prototype). \<open>timeouts\<close> are the pending \<open>setTimeout\<close> callbacks of
  \<open>initializeROS2Streaming\<close>, oldest first, each with its \<open>DroneStream\<close>.
  \<open>connecting\<close> are the \<open>connect()\<close> promises not settled yet: the awaiting
  \<open>DroneStream\<close> and the streamer whose socket is opening. \<open>closedPeers\<close> lists the
  calls of \<open>peerConnection.close()\<close>.
\<close>

record client =
  ongoingStreams :: "(string \<times> nat) list"
  ongoingProto :: "nat option"
  streams :: "DroneStream list"
  streamers :: "(nat \<times> streamer) list"
  timeouts :: "nat list"
  connecting :: "(nat \<times> nat) list"
  closedPeers :: "nat list"

definition new_client :: client where
  "new_client =
     \<lparr>ongoingStreams = [], ongoingProto = None, streams = [], streamers = [],
      timeouts = [], connecting = [], closedPeers = []\<rparr>"

definition update_streamer :: "nat \<Rightarrow> (streamer \<Rightarrow> streamer) \<Rightarrow> client \<Rightarrow> client" where
  "update_streamer r f c =
     (if r < length (streamers c)
      then c\<lparr>streamers := (streamers c)[r := (fst (streamers c ! r), f (snd (streamers c ! r)))]\<rparr>
      else c)"

text \<open>The object a name stands for; every name the client holds is that of a constructed
  object, and for any other number there is none.\<close>

definition nth_opt :: "'a list \<Rightarrow> nat \<Rightarrow> 'a option" where
  "nth_opt xs a = (if a < length xs then Some (xs ! a) else None)"

text \<open>
  The property names a plain object inherits from \<open>Object.prototype\<close>, the names of
  the methods of class \<open>DroneStream\<close>, and the names of the fields a \<open>DroneStream\<close>
  has of its own.
\<close>

definition object_prototype_names :: "string list" where
  "object_prototype_names =
     [''constructor'', ''__defineGetter__'', ''__defineSetter__'', ''hasOwnProperty'',
      ''__lookupGetter__'', ''__lookupSetter__'', ''isPrototypeOf'',
      ''propertyIsEnumerable'', ''toString'', ''valueOf'', ''__proto__'',
      ''toLocaleString'']"

definition droneStream_prototype_names :: "string list" where
  "droneStream_prototype_names =
     [''constructor'', ''sendMessage'', ''handleIncomingSocketMsg'', ''startDroneStream'',
      ''handleOnTrack'', ''initializeROS2Streaming'', ''handleOnConnectionStateChange'',
      ''createPeerConnection'']"

definition own_field_names :: "DroneStream \<Rightarrow> string list" where
  "own_field_names s =
     [''droneSocketID'', ''streamObj'', ''ros2Streamer'']
       @ (if peerConnection s = PcUndefined then [] else [''peerConnection''])"

definition inherited_names :: "client \<Rightarrow> string list" where
  "inherited_names c =
     object_prototype_names
       @ (case ongoingProto c of
            None \<Rightarrow> []
          | Some a \<Rightarrow>
              droneStream_prototype_names
                @ (case nth_opt (streams c) a of
                     None \<Rightarrow> []
                   | Some s \<Rightarrow> own_field_names s))"

text \<open>\<open>droneID in this.ongoingStreams\<close>: an own entry or an inherited name.\<close>

definition has_property :: "client \<Rightarrow> string \<Rightarrow> bool" where
  "has_property c droneID =
     (droneID \<in> set (map fst (ongoingStreams c)) \<or> droneID \<in> set (inherited_names c))"

text \<open>
  \<open>this.ongoingStreams[droneID]\<close> for a name the dictionary has: the
  \<open>DroneStream\<close> of an own entry; for \<open>__proto__\<close> the prototype, which is a
  \<open>DroneStream\<close> once one has been assigned to that key; for any other inherited name a
  value that is not a \<open>DroneStream\<close> (a function, a field of the prototype stream, or
  \<open>Object.prototype\<close>): \<open>Inherited\<close>.
\<close>

datatype member = Stream nat | Inherited

definition get_member :: "client \<Rightarrow> string \<Rightarrow> member" where
  "get_member c droneID =
     (if droneID = ''__proto__''
      then (case ongoingProto c of None \<Rightarrow> Inherited | Some a \<Rightarrow> Stream a)
      else (case map_of (ongoingStreams c) droneID of
              None \<Rightarrow> Inherited
            | Some a \<Rightarrow> Stream a))"

text \<open>
  \<open>createDroneStream(droneID, videoTagID)\<close>: a new \<open>DroneStream\<close> is constructed and
  stored under \<open>droneID\<close>, whatever was stored there (the source notes: TODO, prevent
  streams from getting instantiated if they are already ongoing). \<open>found\<close> says whether
  the video element exists, \<open>pcOk\<close> whether \<open>new RTCPeerConnection\<close> returned, so
  that the field was assigned.
\<close>

definition createDroneStream :: "client \<Rightarrow> string \<Rightarrow> bool \<Rightarrow> bool \<Rightarrow> client" where
  "createDroneStream c droneID found pcOk =
     (let c1 = c\<lparr>streams := streams c @
                   [\<lparr>droneSocketID = droneID, streamObj = found, ros2Streamer = None,
                     peerConnection = (if pcOk then PcOpen else PcUndefined)\<rparr>]\<rparr>
      in if droneID = ''__proto__''
         then c1\<lparr>ongoingProto := Some (length (streams c))\<rparr>
         else c1\<lparr>ongoingStreams :=
                   AList.update droneID (length (streams c)) (ongoingStreams c)\<rparr>)"

definition getStreamByDroneID :: "client \<Rightarrow> string \<Rightarrow> error + member" where
  "getStreamByDroneID c droneID =
     (if has_property c droneID then Inr (get_member c droneID) else Inl KeyError)"

text \<open>
  \<open>closeDroneStream(droneID)\<close>. An exception leaves the state as it is at the throw:
  \<open>Inl (e, c)\<close>. On an inherited value that is not a \<open>DroneStream\<close>, reading
  \<open>stream.ros2Streamer\<close> throws a TypeError (the value is \<open>null\<close>) or yields
  \<open>undefined\<close>, and then \<open>stream.peerConnection\<close> is \<open>undefined\<close> and the call of
  its \<open>close\<close> throws a TypeError. \<open>delete\<close> removes an own entry only. The
  dictionary only ever holds names of constructed streams; for a number that names none
  the model lets the call throw.
\<close>

definition closeDroneStream :: "client \<Rightarrow> string \<Rightarrow> (error \<times> client) + client" where
  "closeDroneStream c droneID =
     (case getStreamByDroneID c droneID of
        Inl e \<Rightarrow> Inl (e, c)
      | Inr Inherited \<Rightarrow> Inl (TypeError, c)
      | Inr (Stream a) \<Rightarrow>
          (case nth_opt (streams c) a of
             None \<Rightarrow> Inl (TypeError, c)
           | Some stream \<Rightarrow>
               (let c1 = (case ros2Streamer stream of
                            None \<Rightarrow> c
                          | Some r \<Rightarrow> update_streamer r disconnect c)
                in if peerConnection stream \<noteq> PcOpen then Inl (TypeError, c1)
                   else Inr (c1\<lparr>closedPeers := closedPeers c1 @ [a],
                                ongoingStreams := AList.delete droneID (ongoingStreams c1),
                                streams := (streams c1)[a := stream\<lparr>peerConnection := PcNull\<rparr>]\<rparr>))))"

text \<open>
  \<open>handleOnTrack(event)\<close> on the stream at \<open>a\<close>: it sets \<open>streamObj.srcObject\<close> and
  calls \<open>initializeROS2Streaming()\<close>, which only schedules the callback.
\<close>

definition handleOnTrack :: "client \<Rightarrow> nat \<Rightarrow> (error \<times> client) + client" where
  "handleOnTrack c a =
     (if \<not> streamObj (streams c ! a) then Inl (TypeError, c)
      else Inr (c\<lparr>timeouts := timeouts c @ [a]\<rparr>))"

text \<open>
  The scheduled callback, up to its \<open>await\<close>: a new \<open>ROS2ImageStreamer\<close> replaces
  \<open>this.ros2Streamer\<close> and \<open>connect()\<close> opens its socket.
\<close>

definition timeout_fires :: "client \<Rightarrow> client" where
  "timeout_fires c =
     (case timeouts c of
        [] \<Rightarrow> c
      | a # rest \<Rightarrow>
          c\<lparr>timeouts := rest,
            streamers := streamers c @
              [(a, (new_streamer (streamObj (streams c ! a)))
                     \<lparr>ws := Some \<lparr>readyState = CONNECTING, bufferedAmount = 0\<rparr>\<rparr>)],
            streams := (streams c)[a := (streams c ! a)\<lparr>ros2Streamer := Some (length (streamers c))\<rparr>],
            connecting := connecting c @ [(a, length (streamers c))]\<rparr>)"

definition set_readyState :: "ready_state \<Rightarrow> streamer \<Rightarrow> streamer" where
  "set_readyState rs s =
     (case ws s of None \<Rightarrow> s | Some w \<Rightarrow> s\<lparr>ws := Some (w\<lparr>readyState := rs\<rparr>)\<rparr>)"

text \<open>
  The socket of streamer \<open>r\<close> opens: the promise resolves and the callback goes on
  with \<open>this.ros2Streamer.startStreaming(10)\<close>, on whichever streamer the field names
  by then.
\<close>

definition ws_onopen :: "client \<Rightarrow> nat \<Rightarrow> nat \<Rightarrow> client" where
  "ws_onopen c r timer =
     (case find (\<lambda>p. snd p = r) (connecting c) of
        None \<Rightarrow> c
      | Some p \<Rightarrow>
          (let c1 = (update_streamer r (set_readyState OPEN) c)
                      \<lparr>connecting := filter (\<lambda>q. snd q \<noteq> r) (connecting c)\<rparr>
           in (case ros2Streamer (streams c1 ! fst p) of
                 None \<Rightarrow> c1
               | Some r' \<Rightarrow> update_streamer r' (\<lambda>s. startStreaming s 10 timer) c1)))"

text \<open>The socket of streamer \<open>r\<close> fails to open: the promise rejects, the callback
  logs.\<close>

definition ws_onerror :: "client \<Rightarrow> nat \<Rightarrow> client" where
  "ws_onerror c r = c\<lparr>connecting := filter (\<lambda>q. snd q \<noteq> r) (connecting c)\<rparr>"

datatype event =
    CreateDroneStream string bool bool
  | CloseDroneStream string
  | Track nat
  | Timeout
  | WsOpen nat nat
  | WsError nat
  | WsClosed nat

text \<open>An exception in a handler is reported and the page goes on from the state at the
  throw.\<close>

fun state_after :: "(error \<times> client) + client \<Rightarrow> client" where
  "state_after (Inl (e, c)) = c"
| "state_after (Inr c) = c"

fun client_step :: "client \<Rightarrow> event \<Rightarrow> client" where
  "client_step c (CreateDroneStream droneID found pcOk) = createDroneStream c droneID found pcOk"
| "client_step c (CloseDroneStream droneID) = state_after (closeDroneStream c droneID)"
| "client_step c (Track a) = state_after (handleOnTrack c a)"
| "client_step c Timeout = timeout_fires c"
| "client_step c (WsOpen r timer) = ws_onopen c r timer"
| "client_step c (WsError r) = ws_onerror c r"
| "client_step c (WsClosed r) = update_streamer r ws_onclose c"

definition run_client :: "event list \<Rightarrow> client" where
  "run_client evs = foldl client_step new_client evs"

text \<open>
  The peer links to \<open>droneID\<close> that exist: the \<open>DroneStream\<close> objects for it whose
  \<open>RTCPeerConnection\<close> has not been closed. The frame producers active for the stream
  at \<open>a\<close>: the streamers it constructed whose interval timer runs.
\<close>

definition peer_links :: "client \<Rightarrow> string \<Rightarrow> nat list" where
  "peer_links c droneID =
     filter (\<lambda>a. droneSocketID (streams c ! a) = droneID
                  \<and> peerConnection (streams c ! a) = PcOpen)
       [0 ..< length (streams c)]"

definition active_producers :: "client \<Rightarrow> nat \<Rightarrow> nat list" where
  "active_producers c a =
     filter (\<lambda>r. fst (streamers c ! r) = a \<and> intervalId (snd (streamers c ! r)) \<noteq> None)
       [0 ..< length (streamers c)]"



section \<open>Properties of the relay\<close>

lemma map_of_update_same: "map_of (AList.update k v al) k = Some v"
  by (simp add: update_conv')


lemma findClientID_None_iff: "findClientID m s = None \<longleftrightarrow> s \<notin> snd ` set m"
  by (induction m s rule: findClientID.induct) auto

lemma findClientID_Some_mem: "findClientID m s = Some k \<Longrightarrow> (k, s) \<in> set m"
  by (induction m s rule: findClientID.induct) (auto split: if_splits)

text \<open>
  C1, as amended: for every forwarded envelope whose payload \<open>data\<close> is a JSON object and
  whose requested target id is in the registry, the relay hands exactly one frame to the
  target connection, and in it \<open>data.socketID\<close> is the id the relay found by reverse
  lookup of the sending socket (\<open>null\<close> when the socket is not registered), whatever
  \<open>socketID\<close> the payload carried; the other properties of the payload are kept.
\<close>

theorem forward_injects_resolved_sender:
  assumes "get_prop (Some msg) ''event'' = Inr (Some (JStr ''webrtc_msg''))"
    and "get_prop (Some msg) ''data'' = Inr (Some (JObj kvs))"
    and "requested_id msg = Inr targetId"
    and "clients_get (clients r) targetId = Some target"
  shows "onMessage r sock (Some msg) =
           Inr (r\<lparr>sent := sent r @
                  [(target, JObj [(''event'', JStr ''webrtc_msg''),
                                  (''data'', JObj (AList.update ''socketID''
                                     (id_json (findClientID (clients r) sock)) kvs))])]\<rparr>)
         \<and> delivered_sender (JObj [(''event'', JStr ''webrtc_msg''),
                                  (''data'', JObj (AList.update ''socketID''
                                     (id_json (findClientID (clients r) sock)) kvs))])
             = Inr (Some (id_json (findClientID (clients r) sock)))"
  using assms
  by (simp add: onMessage_def send_def delivered_sender_def map_of_update_same)

text \<open>
  Client \<open>a1\<close> on socket 1 sends an offer for \<open>b2\<close> and claims to be \<open>zz\<close>; socket 2
  receives the offer with \<open>socketID = a1\<close>.
\<close>

theorem forward_injects_resolved_sender_witness:
  "onMessage \<lparr>clients = [(''a1'', 1), (''b2'', 2)], sent = []\<rparr> 1
     (Some (JObj [(''event'', JStr ''webrtc_msg''), (''socketID'', JStr ''b2''),
                  (''data'', JObj [(''type'', JStr ''offer''), (''socketID'', JStr ''zz'')])]))
   = Inr \<lparr>clients = [(''a1'', 1), (''b2'', 2)],
          sent = [(2, JObj [(''event'', JStr ''webrtc_msg''),
                            (''data'', JObj [(''type'', JStr ''offer''),
                                             (''socketID'', JStr ''a1'')])])]\<rparr>"
proof -
  let ?msg = "JObj [(''event'', JStr ''webrtc_msg''), (''socketID'', JStr ''b2''),
                    (''data'', JObj [(''type'', JStr ''offer''), (''socketID'', JStr ''zz'')])]"
  let ?r = "\<lparr>clients = [(''a1'', 1), (''b2'', 2)], sent = []\<rparr>"
  have h1: "get_prop (Some ?msg) ''event'' = Inr (Some (JStr ''webrtc_msg''))" by simp
  have h2: "get_prop (Some ?msg) ''data''
              = Inr (Some (JObj [(''type'', JStr ''offer''), (''socketID'', JStr ''zz'')]))"
    by simp
  have h3: "requested_id ?msg = Inr (Some (JStr ''b2''))" by (simp add: requested_id_def)
  have h4: "clients_get (clients ?r) (Some (JStr ''b2'')) = Some 2" by simp
  show ?thesis
    using forward_injects_resolved_sender [OF h1 h2 h3 h4, of 1] by simp
qed

text \<open>
  The claim as stated fails for a payload that is not an object: an array payload is
  forwarded to the target without any sender id.
\<close>

theorem forward_array_payload_counterexample:
  "onMessage \<lparr>clients = [(''a1'', 1), (''b2'', 2)], sent = []\<rparr> 1
     (Some (JObj [(''event'', JStr ''webrtc_msg''), (''socketID'', JStr ''b2''),
                  (''data'', JArr [JStr ''offer''])]))
   = Inr \<lparr>clients = [(''a1'', 1), (''b2'', 2)],
          sent = [(2, JObj [(''event'', JStr ''webrtc_msg''),
                            (''data'', JArr [JStr ''offer''])])]\<rparr>
   \<and> findClientID [(''a1'', 1), (''b2'', 2)] 1 = Some ''a1''
   \<and> delivered_sender (JObj [(''event'', JStr ''webrtc_msg''), (''data'', JArr [JStr ''offer''])])
       = Inr None"
  by (simp add: onMessage_def requested_id_def send_def delivered_sender_def)

text \<open>
  C7, as amended: for every inbound envelope whose payload \<open>data\<close> is present and not
  \<open>null\<close> and whose requested target id is not in the registry, the handler returns
  normally and leaves the relay as it was: nothing is sent to any connection and the
  registry is unchanged.
\<close>

theorem absent_target_dropped:
  assumes "get_prop (Some msg) ''data'' = Inr (Some d)"
    and "d \<noteq> JNull"
    and "requested_id msg = Inr targetId"
    and "clients_get (clients r) targetId = None"
  shows "onMessage r sock (Some msg) = Inr r"
proof -
  obtain d' where "set_socketID (Some d) (id_json (findClientID (clients r) sock)) = Inr d'"
    using assms(2) by (cases d) auto
  moreover obtain ty where "get_prop (Some msg) ''event'' = Inr ty"
    using assms(1) by (cases msg) auto
  ultimately show ?thesis
    using assms by (simp add: onMessage_def)
qed

theorem absent_target_dropped_witness:
  "onMessage \<lparr>clients = [(''a1'', 1)], sent = []\<rparr> 1
     (Some (JObj [(''event'', JStr ''webrtc_msg''), (''socketID'', JStr ''ghost''),
                  (''data'', JObj [(''type'', JStr ''offer'')])]))
   = Inr \<lparr>clients = [(''a1'', 1)], sent = []\<rparr>"
proof -
  let ?msg = "JObj [(''event'', JStr ''webrtc_msg''), (''socketID'', JStr ''ghost''),
                    (''data'', JObj [(''type'', JStr ''offer'')])]"
  let ?r = "\<lparr>clients = [(''a1'', 1)], sent = []\<rparr>"
  have h1: "get_prop (Some ?msg) ''data'' = Inr (Some (JObj [(''type'', JStr ''offer'')]))"
    by simp
  have h2: "JObj [(''type'', JStr ''offer'')] \<noteq> JNull" by simp
  have h3: "requested_id ?msg = Inr (Some (JStr ''ghost''))" by (simp add: requested_id_def)
  have h4: "clients_get (clients ?r) (Some (JStr ''ghost'')) = None" by simp
  show ?thesis
    using absent_target_dropped [OF h1 h2 h3 h4, of 1] by simp
qed

text \<open>
  The claim as stated fails for a \<open>null\<close> payload: the target \<open>ghost\<close> is not
  registered, and the assignment to \<open>data['socketID']\<close>, which comes before the test of
  the target, throws a TypeError out of the handler.
\<close>

theorem absent_target_null_payload_counterexample:
  "requested_id (JObj [(''event'', JStr ''webrtc_msg''), (''socketID'', JStr ''ghost''),
                       (''data'', JNull)]) = Inr (Some (JStr ''ghost''))
   \<and> clients_get [(''a1'', 1)] (Some (JStr ''ghost'')) = None
   \<and> onMessage \<lparr>clients = [(''a1'', 1)], sent = []\<rparr> 1
       (Some (JObj [(''event'', JStr ''webrtc_msg''), (''socketID'', JStr ''ghost''),
                    (''data'', JNull)])) = Inl TypeError"
  by (simp add: onMessage_def requested_id_def)

text \<open>
  What does hold of the registry: an id that is not in use keeps the ids distinct, and
  unregistering a socket that is not registered changes nothing.
\<close>

lemma connection_fresh_distinct:
  "ident \<notin> fst ` set (clients r) \<Longrightarrow> distinct (map fst (clients r)) \<Longrightarrow>
   distinct (map fst (clients (connection r ident socket)))"
  by (simp add: connection_def distinct_update)

lemma clearClient_unknown:
  "socket \<notin> snd ` set (clients r) \<Longrightarrow> clearClient r socket = r"
  by (simp add: clearClient_def findClientID_None_iff [symmetric])

text \<open>
  C3: the ids of two distinct connections are distinct. The handler does not enforce it:
  when the random source yields the same string for two connections (here \<open>i\<close>, the id
  that \<open>Math.random() = 0.5\<close> gives), both get that id, the second registration replaces
  the first, and the first socket is no longer found by reverse lookup.
\<close>

theorem colliding_ids_overwrite:
  "clients (connection (connection \<lparr>clients = [], sent = []\<rparr> ''i'' 1) ''i'' 2) = [(''i'', 2)]
   \<and> findClientID
        (clients (connection (connection \<lparr>clients = [], sent = []\<rparr> ''i'' 1) ''i'' 2)) 1 = None"
  by (simp add: connection_def)



section \<open>Properties of the frame producer\<close>

text \<open>A tick of a producer that is not streaming, or has lost its side channel, returns
  at once and counts nothing.\<close>

lemma tick_when_stopped:
  "\<not> isStreaming s \<or> ws s = None \<Longrightarrow> captureAndSendFrame s t = s"
  by (auto simp add: captureAndSendFrame_def split: option.split)


text \<open>
  C5, as amended: on a tick of a producer that is streaming (the flag is set, the video
  element and the side channel are there) the checks come in this order. When the outbound
  buffer exceeds the high-water mark of 50 KiB, the tick only increments the drop counter.
  Otherwise, when the time since the last accepted frame is less than 80% of the target
  interval of 1000 / frameRate ms (at frame rate 0 the interval is unbounded and this is
  always so), the tick only increments the drop counter. Otherwise, when the video source
  is not ready or has zero width or height, the tick changes nothing, the drop counter
  included. On a tick of a producer that is not streaming, nothing is checked or counted.
\<close>

theorem tick_checks_in_order:
  assumes "isStreaming s" and "videoElement s" and "ws s = Some w"
  shows "(bufferedAmount w > 51200 \<longrightarrow>
            captureAndSendFrame s t = s\<lparr>frameDropCount := frameDropCount s + 1\<rparr>)
       \<and> (bufferedAmount w \<le> 51200
            \<and> (frameRate s = 0
                \<or> of_int (now t - lastFrameTime s)
                     < (80 / 100) * (1000 / (of_int (frameRate s) :: rat))) \<longrightarrow>
            captureAndSendFrame s t = s\<lparr>frameDropCount := frameDropCount s + 1\<rparr>)
       \<and> (bufferedAmount w \<le> 51200 \<and> frameRate s \<noteq> 0
            \<and> \<not> of_int (now t - lastFrameTime s)
                  < (80 / 100) * (1000 / (of_int (frameRate s) :: rat))
            \<and> (videoReadyState t < 2 \<or> videoWidth t = 0 \<or> videoHeight t = 0) \<longrightarrow>
            captureAndSendFrame s t = s)
       \<and> (\<forall>s'. \<not> isStreaming s' \<longrightarrow> captureAndSendFrame s' t = s')"
proof -
  have "\<forall>s'. \<not> isStreaming s' \<longrightarrow> captureAndSendFrame s' t = s'"
    by (simp add: tick_when_stopped)
  then show ?thesis
    using assms by (simp add: captureAndSendFrame_def too_soon_def)
qed

text \<open>
  A producer at 10 frames per second whose last frame was accepted at 1000 ms: a tick with
  60000 bytes buffered is counted as a drop, a tick at 1079 ms (79 ms < 80 ms) is counted
  as a drop, and a tick at 1080 ms with a video that is not ready is skipped uncounted.
\<close>

theorem tick_checks_in_order_witness:
  "captureAndSendFrame
     ((new_streamer True)\<lparr>ws := Some \<lparr>readyState = OPEN, bufferedAmount = 60000\<rparr>,
        isStreaming := True, frameRate := 10, intervalId := Some 1, lastFrameTime := 1000\<rparr>)
     \<lparr>now = 1200, videoReadyState = 4, videoWidth = 640, videoHeight = 480,
      capture = Some ''AAAA''\<rparr>
   = (new_streamer True)\<lparr>ws := Some \<lparr>readyState = OPEN, bufferedAmount = 60000\<rparr>,
        isStreaming := True, frameRate := 10, intervalId := Some 1, lastFrameTime := 1000,
        frameDropCount := 1\<rparr>
   \<and> captureAndSendFrame
     ((new_streamer True)\<lparr>ws := Some \<lparr>readyState = OPEN, bufferedAmount = 0\<rparr>,
        isStreaming := True, frameRate := 10, intervalId := Some 1, lastFrameTime := 1000\<rparr>)
     \<lparr>now = 1079, videoReadyState = 4, videoWidth = 640, videoHeight = 480,
      capture = Some ''AAAA''\<rparr>
   = (new_streamer True)\<lparr>ws := Some \<lparr>readyState = OPEN, bufferedAmount = 0\<rparr>,
        isStreaming := True, frameRate := 10, intervalId := Some 1, lastFrameTime := 1000,
        frameDropCount := 1\<rparr>
   \<and> captureAndSendFrame
     ((new_streamer True)\<lparr>ws := Some \<lparr>readyState = OPEN, bufferedAmount = 0\<rparr>,
        isStreaming := True, frameRate := 10, intervalId := Some 1, lastFrameTime := 1000\<rparr>)
     \<lparr>now = 1080, videoReadyState = 1, videoWidth = 640, videoHeight = 480,
      capture = Some ''AAAA''\<rparr>
   = (new_streamer True)\<lparr>ws := Some \<lparr>readyState = OPEN, bufferedAmount = 0\<rparr>,
        isStreaming := True, frameRate := 10, intervalId := Some 1, lastFrameTime := 1000\<rparr>"
  using
    tick_checks_in_order
      [of "(new_streamer True)\<lparr>ws := Some \<lparr>readyState = OPEN, bufferedAmount = 60000\<rparr>,
             isStreaming := True, frameRate := 10, intervalId := Some 1,
             lastFrameTime := 1000\<rparr>"
          "\<lparr>readyState = OPEN, bufferedAmount = 60000\<rparr>"
          "\<lparr>now = 1200, videoReadyState = 4, videoWidth = 640, videoHeight = 480,
            capture = Some ''AAAA''\<rparr>"]
    tick_checks_in_order
      [of "(new_streamer True)\<lparr>ws := Some \<lparr>readyState = OPEN, bufferedAmount = 0\<rparr>,
             isStreaming := True, frameRate := 10, intervalId := Some 1,
             lastFrameTime := 1000\<rparr>"
          "\<lparr>readyState = OPEN, bufferedAmount = 0\<rparr>"
          "\<lparr>now = 1079, videoReadyState = 4, videoWidth = 640, videoHeight = 480,
            capture = Some ''AAAA''\<rparr>"]
    tick_checks_in_order
      [of "(new_streamer True)\<lparr>ws := Some \<lparr>readyState = OPEN, bufferedAmount = 0\<rparr>,
             isStreaming := True, frameRate := 10, intervalId := Some 1,
             lastFrameTime := 1000\<rparr>"
          "\<lparr>readyState = OPEN, bufferedAmount = 0\<rparr>"
          "\<lparr>now = 1080, videoReadyState = 1, videoWidth = 640, videoHeight = 480,
            capture = Some ''AAAA''\<rparr>"]
  by (simp add: new_streamer_def)

text \<open>
  The claim as stated fails on a tick of a producer that has stopped streaming without
  its timer being cleared. A producer is started with timer 3, 60000 bytes pile up in the
  buffer, and the socket closes: \<open>ws.onclose\<close> clears the flag and leaves the timer.
  The next tick finds the buffer above the mark and counts nothing.
\<close>

theorem stale_tick_not_counted_counterexample:
  "intervalId (ws_onclose
       ((startStreaming ((new_streamer True)\<lparr>ws := Some \<lparr>readyState = OPEN, bufferedAmount = 0\<rparr>\<rparr>)
           10 3)\<lparr>ws := Some \<lparr>readyState = OPEN, bufferedAmount = 60000\<rparr>\<rparr>)) = Some 3
   \<and> ws (ws_onclose
       ((startStreaming ((new_streamer True)\<lparr>ws := Some \<lparr>readyState = OPEN, bufferedAmount = 0\<rparr>\<rparr>)
           10 3)\<lparr>ws := Some \<lparr>readyState = OPEN, bufferedAmount = 60000\<rparr>\<rparr>))
       = Some \<lparr>readyState = CLOSED, bufferedAmount = 60000\<rparr>
   \<and> frameDropCount (captureAndSendFrame
       (ws_onclose
          ((startStreaming ((new_streamer True)\<lparr>ws := Some \<lparr>readyState = OPEN, bufferedAmount = 0\<rparr>\<rparr>)
              10 3)\<lparr>ws := Some \<lparr>readyState = OPEN, bufferedAmount = 60000\<rparr>\<rparr>))
       \<lparr>now = 1200, videoReadyState = 4, videoWidth = 640, videoHeight = 480,
        capture = Some ''AAAA''\<rparr>) = 0"
  by (simp add: ws_onclose_def startStreaming_def new_streamer_def captureAndSendFrame_def)

text \<open>
  C10: on a tick that gets as far as the send (the producer is streaming, the buffer is
  not above the mark, the pacing test passes, the video is ready with nonzero width and
  height) while the side channel is not \<open>OPEN\<close>, \<open>lastFrameTime\<close> becomes the current
  time, nothing is handed to the channel, and \<open>frameDropCount\<close> stays as it was.
\<close>

theorem closed_channel_frame_lost:
  assumes "isStreaming s" and "videoElement s" and "ws s = Some w"
    and "\<not> bufferedAmount w > 1024 * 50"
    and "\<not> too_soon (now t - lastFrameTime s) (frameRate s)"
    and "2 \<le> videoReadyState t" and "videoWidth t \<noteq> 0" and "videoHeight t \<noteq> 0"
    and "readyState w \<noteq> OPEN"
  shows "lastFrameTime (captureAndSendFrame s t) = now t
       \<and> actions (captureAndSendFrame s t) = actions s
       \<and> frameDropCount (captureAndSendFrame s t) = frameDropCount s"
  using assms by (simp add: captureAndSendFrame_def Let_def split: option.split)

text \<open>The side channel is closing when the tick at 1100 ms reaches the send.\<close>

theorem closed_channel_frame_lost_witness:
  "lastFrameTime (captureAndSendFrame
     ((new_streamer True)\<lparr>ws := Some \<lparr>readyState = CLOSING, bufferedAmount = 0\<rparr>,
        isStreaming := True, frameRate := 10, intervalId := Some 1, lastFrameTime := 1000,
        frameDropCount := 3\<rparr>)
     \<lparr>now = 1100, videoReadyState = 4, videoWidth = 640, videoHeight = 480,
      capture = Some ''AAAA''\<rparr>) = 1100
   \<and> actions (captureAndSendFrame
     ((new_streamer True)\<lparr>ws := Some \<lparr>readyState = CLOSING, bufferedAmount = 0\<rparr>,
        isStreaming := True, frameRate := 10, intervalId := Some 1, lastFrameTime := 1000,
        frameDropCount := 3\<rparr>)
     \<lparr>now = 1100, videoReadyState = 4, videoWidth = 640, videoHeight = 480,
      capture = Some ''AAAA''\<rparr>) = []
   \<and> frameDropCount (captureAndSendFrame
     ((new_streamer True)\<lparr>ws := Some \<lparr>readyState = CLOSING, bufferedAmount = 0\<rparr>,
        isStreaming := True, frameRate := 10, intervalId := Some 1, lastFrameTime := 1000,
        frameDropCount := 3\<rparr>)
     \<lparr>now = 1100, videoReadyState = 4, videoWidth = 640, videoHeight = 480,
      capture = Some ''AAAA''\<rparr>) = 3"
  using closed_channel_frame_lost
      [of "(new_streamer True)\<lparr>ws := Some \<lparr>readyState = CLOSING, bufferedAmount = 0\<rparr>,
             isStreaming := True, frameRate := 10, intervalId := Some 1,
             lastFrameTime := 1000, frameDropCount := 3\<rparr>"
          "\<lparr>readyState = CLOSING, bufferedAmount = 0\<rparr>"
          "\<lparr>now = 1100, videoReadyState = 4, videoWidth = 640, videoHeight = 480,
            capture = Some ''AAAA''\<rparr>"]
  by (simp add: new_streamer_def too_soon_def)






section \<open>Properties of the browser client\<close>










text \<open>
  C2: at most one peer link per remote id, at most one active frame producer per peer link.
  The client does not keep to it. Two \<open>createDroneStream\<close> calls for \<open>d1\<close> leave two
  \<open>DroneStream\<close> objects for \<open>d1\<close> with an open peer connection (the first is no longer
  in the dictionary, so \<open>closeDroneStream\<close> cannot reach it). Two track events on one
  stream, the second after the first producer has started, leave two producers with a
  running timer for that stream.
\<close>

theorem duplicate_links_and_producers:
  "peer_links (run_client [CreateDroneStream ''d1'' True True,
                           CreateDroneStream ''d1'' True True]) ''d1'' = [0, 1]
   \<and> active_producers
        (run_client [CreateDroneStream ''d1'' True True, Track 0, Timeout, WsOpen 0 1,
                     Track 0, Timeout, WsOpen 1 2]) 0 = [0, 1]"
  by code_simp



section \<open>Properties of the frame consumer\<close>

lemma rate_limited_drop:
  "isInitialized s \<Longrightarrow> publisher s \<Longrightarrow>
   of_int (arrivedAt b - lastPublishTime s) < minPublishInterval s \<Longrightarrow>
   publishCompressedImageFrame sink s b = s\<lparr>dropCount := dropCount s + 1\<rparr>"
  by (simp add: publishCompressedImageFrame_def)

lemma feed_all_rate_limited:
  "isInitialized s \<Longrightarrow> publisher s \<Longrightarrow>
   \<forall>b\<in>set rest. of_int (arrivedAt b - lastPublishTime s) < minPublishInterval s \<Longrightarrow>
   feed sink s rest = s\<lparr>dropCount := dropCount s + length rest\<rparr>"
proof (induction rest arbitrary: s)
  case Nil
  then show ?case by simp
next
  case (Cons b rest)
  let ?s = "s\<lparr>dropCount := dropCount s + 1\<rparr>"
  have step: "publishCompressedImageFrame sink s b = ?s"
    using Cons.prems by (simp add: rate_limited_drop)
  have "feed sink ?s rest = ?s\<lparr>dropCount := dropCount ?s + length rest\<rparr>"
    using Cons.prems by (intro Cons.IH) simp_all
  then show ?case using step by simp
qed

lemma accepted_success:
  assumes "isInitialized s" "publisher s" "\<not> isProcessing s"
    and "\<not> of_int (arrivedAt a - lastPublishTime s) < minPublishInterval s"
    and "fdata a = Some fd" "jpeg fd = Some bytes" "sink (compressedImageMsg (arrivedAt a) bytes)"
  shows "publishCompressedImageFrame sink s a =
           s\<lparr>isProcessing := False, lastPublishTime := arrivedAt a,
             published := published s @ [compressedImageMsg (arrivedAt a) bytes],
             lastProcessTime := endTime a - startTime a\<rparr>"
  using assms by (simp add: publishCompressedImageFrame_def try_publish_def)

lemma accepted_failure:
  assumes "isInitialized s" "publisher s" "\<not> isProcessing s"
    and "\<not> of_int (arrivedAt a - lastPublishTime s) < minPublishInterval s"
    and "try_publish sink (s\<lparr>isProcessing := True, lastPublishTime := arrivedAt a\<rparr>) a = Inl e"
  shows "publishCompressedImageFrame sink s a
           = s\<lparr>isProcessing := False, lastPublishTime := arrivedAt a\<rparr>"
  using assms by (simp add: publishCompressedImageFrame_def)

lemma accepted_fields:
  assumes "isInitialized s" "publisher s" "\<not> isProcessing s"
    and "\<not> of_int (arrivedAt a - lastPublishTime s) < minPublishInterval s"
  shows "\<not> isProcessing (publishCompressedImageFrame sink s a)"
    and "lastPublishTime (publishCompressedImageFrame sink s a) = arrivedAt a"
    and "isInitialized (publishCompressedImageFrame sink s a)"
    and "publisher (publishCompressedImageFrame sink s a)"
    and "minPublishInterval (publishCompressedImageFrame sink s a) = minPublishInterval s"
    and "dropCount (publishCompressedImageFrame sink s a) = dropCount s"
  using assms
  by (simp_all add: publishCompressedImageFrame_def try_publish_def Let_def
      split: option.split sum.split)

text \<open>The flag is never left set: a consumer whose flag is clear keeps it clear, whatever
  arrives and whatever the sink does.\<close>

lemma flag_stays_clear:
  "\<not> isProcessing s \<Longrightarrow> \<not> isProcessing (feed sink s as)"
proof (induction as arbitrary: s)
  case Nil
  then show ?case by simp
next
  case (Cons a as)
  have "\<not> isProcessing (publishCompressedImageFrame sink s a)"
    using Cons.prems by (simp add: publishCompressedImageFrame_def Let_def)
  then show ?case by (simp add: Cons.IH)
qed

text \<open>
  C6, as amended: for an initialised consumer with \<open>minPublishInterval = 100\<close> and the
  processing flag clear, of 5 frames arriving within a 50 ms window, the first at least
  100 ms after \<open>lastPublishTime\<close> (the time of the last attempt, whether it published
  or threw) and decoded and published without an exception, exactly the first is published
  and the 4 others are dropped, the drop counter going up by 4; and every frame that
  arrives less than \<open>minPublishInterval\<close> after \<open>lastPublishTime\<close> is dropped,
  counted and not published.
\<close>

theorem five_frames_one_published:
  assumes "isInitialized s" and "publisher s" and "\<not> isProcessing s"
    and "minPublishInterval s = 100"
    and "100 \<le> arrivedAt a - lastPublishTime s"
    and "fdata a = Some fd" and "jpeg fd = Some bytes"
    and "sink (compressedImageMsg (arrivedAt a) bytes)"
    and "length rest = 4"
    and "\<forall>b\<in>set rest. arrivedAt a \<le> arrivedAt b \<and> arrivedAt b - arrivedAt a \<le> 50"
  shows "published (feed sink s (a # rest))
           = published s @ [compressedImageMsg (arrivedAt a) bytes]
       \<and> dropCount (feed sink s (a # rest)) = dropCount s + 4
       \<and> (\<forall>b. of_int (arrivedAt b - lastPublishTime s) < minPublishInterval s \<longrightarrow>
            publishCompressedImageFrame sink s b = s\<lparr>dropCount := dropCount s + 1\<rparr>)"
proof -
  let ?s1 = "s\<lparr>isProcessing := False, lastPublishTime := arrivedAt a,
             published := published s @ [compressedImageMsg (arrivedAt a) bytes],
             lastProcessTime := endTime a - startTime a\<rparr>"
  have nolimit: "\<not> of_int (arrivedAt a - lastPublishTime s) < minPublishInterval s"
    using assms(4,5) by simp
  have first: "publishCompressedImageFrame sink s a = ?s1"
    using assms(1-3) nolimit assms(6-8) by (rule accepted_success)
  have "feed sink ?s1 rest = ?s1\<lparr>dropCount := dropCount ?s1 + length rest\<rparr>"
  proof (rule feed_all_rate_limited)
    show "\<forall>b\<in>set rest. of_int (arrivedAt b - lastPublishTime ?s1) < minPublishInterval ?s1"
      using assms(4,10) by auto
  qed (use assms in simp_all)
  then have "feed sink s (a # rest) = ?s1\<lparr>dropCount := dropCount s + 4\<rparr>"
    using first assms(9) by simp
  moreover have "\<forall>b. of_int (arrivedAt b - lastPublishTime s) < minPublishInterval s \<longrightarrow>
            publishCompressedImageFrame sink s b = s\<lparr>dropCount := dropCount s + 1\<rparr>"
    using assms(1,2) by (simp add: rate_limited_drop)
  ultimately show ?thesis by simp
qed

text \<open>Five decodable frames at 1000, 1010, 1020, 1030 and 1050 ms, a sink that takes
  everything.\<close>

theorem five_frames_one_published_witness:
  "published (feed (\<lambda>m. True) (initialize new_consumer)
     [\<lparr>fdata = Some \<lparr>jpeg = Some [255, 216]\<rparr>, arrivedAt = 1000, startTime = 1000, endTime = 1001\<rparr>,
      \<lparr>fdata = Some \<lparr>jpeg = Some [255, 216]\<rparr>, arrivedAt = 1010, startTime = 1010, endTime = 1011\<rparr>,
      \<lparr>fdata = Some \<lparr>jpeg = Some [255, 216]\<rparr>, arrivedAt = 1020, startTime = 1020, endTime = 1021\<rparr>,
      \<lparr>fdata = Some \<lparr>jpeg = Some [255, 216]\<rparr>, arrivedAt = 1030, startTime = 1030, endTime = 1031\<rparr>,
      \<lparr>fdata = Some \<lparr>jpeg = Some [255, 216]\<rparr>, arrivedAt = 1050, startTime = 1050, endTime = 1051\<rparr>])
   = [compressedImageMsg 1000 [255, 216]]
   \<and> dropCount (feed (\<lambda>m. True) (initialize new_consumer)
     [\<lparr>fdata = Some \<lparr>jpeg = Some [255, 216]\<rparr>, arrivedAt = 1000, startTime = 1000, endTime = 1001\<rparr>,
      \<lparr>fdata = Some \<lparr>jpeg = Some [255, 216]\<rparr>, arrivedAt = 1010, startTime = 1010, endTime = 1011\<rparr>,
      \<lparr>fdata = Some \<lparr>jpeg = Some [255, 216]\<rparr>, arrivedAt = 1020, startTime = 1020, endTime = 1021\<rparr>,
      \<lparr>fdata = Some \<lparr>jpeg = Some [255, 216]\<rparr>, arrivedAt = 1030, startTime = 1030, endTime = 1031\<rparr>,
      \<lparr>fdata = Some \<lparr>jpeg = Some [255, 216]\<rparr>, arrivedAt = 1050, startTime = 1050, endTime = 1051\<rparr>])
   = 4"
proof -
  let ?s = "initialize new_consumer"
  let ?a = "\<lparr>fdata = Some \<lparr>jpeg = Some [255, 216]\<rparr>, arrivedAt = 1000, startTime = 1000,
             endTime = 1001\<rparr>"
  let ?rest =
    "[\<lparr>fdata = Some \<lparr>jpeg = Some [255, 216]\<rparr>, arrivedAt = 1010, startTime = 1010, endTime = 1011\<rparr>,
      \<lparr>fdata = Some \<lparr>jpeg = Some [255, 216]\<rparr>, arrivedAt = 1020, startTime = 1020, endTime = 1021\<rparr>,
      \<lparr>fdata = Some \<lparr>jpeg = Some [255, 216]\<rparr>, arrivedAt = 1030, startTime = 1030, endTime = 1031\<rparr>,
      \<lparr>fdata = Some \<lparr>jpeg = Some [255, 216]\<rparr>, arrivedAt = 1050, startTime = 1050, endTime = 1051\<rparr>]"
  have h1: "isInitialized ?s" and h2: "publisher ?s" and h3: "\<not> isProcessing ?s"
    and h4: "minPublishInterval ?s = 100"
    and h5: "100 \<le> arrivedAt ?a - lastPublishTime ?s"
    by (simp_all add: initialize_def new_consumer_def)
  have h6: "fdata ?a = Some \<lparr>jpeg = Some [255, 216]\<rparr>"
    and h7: "jpeg \<lparr>jpeg = Some [255, 216]\<rparr> = Some [255, 216]"
    and h8: "(\<lambda>m. True) (compressedImageMsg (arrivedAt ?a) [255, 216])"
    and h9: "length ?rest = 4"
    and h10: "\<forall>b\<in>set ?rest. arrivedAt ?a \<le> arrivedAt b \<and> arrivedAt b - arrivedAt ?a \<le> 50"
    by simp_all
  have p0: "published ?s = []" and d0: "dropCount ?s = 0"
    by (simp_all add: initialize_def new_consumer_def)
  show ?thesis
    using five_frames_one_published [OF h1 h2 h3 h4 h5 h6 h7 h8 h9 h10] p0 d0 by simp
qed

text \<open>
  The claim as stated fails when the first frame cannot be decoded (its \<open>imageData\<close> is
  missing): it takes the rate-limit window with it, the four decodable frames behind it
  are dropped, and nothing is published.
\<close>

theorem five_frames_none_published_counterexample:
  "published (feed (\<lambda>m. True) (initialize new_consumer)
     [\<lparr>fdata = Some \<lparr>jpeg = None\<rparr>, arrivedAt = 1000, startTime = 1000, endTime = 1001\<rparr>,
      \<lparr>fdata = Some \<lparr>jpeg = Some [255, 216]\<rparr>, arrivedAt = 1010, startTime = 1010, endTime = 1011\<rparr>,
      \<lparr>fdata = Some \<lparr>jpeg = Some [255, 216]\<rparr>, arrivedAt = 1020, startTime = 1020, endTime = 1021\<rparr>,
      \<lparr>fdata = Some \<lparr>jpeg = Some [255, 216]\<rparr>, arrivedAt = 1030, startTime = 1030, endTime = 1031\<rparr>,
      \<lparr>fdata = Some \<lparr>jpeg = Some [255, 216]\<rparr>, arrivedAt = 1050, startTime = 1050, endTime = 1051\<rparr>])
   = []
   \<and> dropCount (feed (\<lambda>m. True) (initialize new_consumer)
     [\<lparr>fdata = Some \<lparr>jpeg = None\<rparr>, arrivedAt = 1000, startTime = 1000, endTime = 1001\<rparr>,
      \<lparr>fdata = Some \<lparr>jpeg = Some [255, 216]\<rparr>, arrivedAt = 1010, startTime = 1010, endTime = 1011\<rparr>,
      \<lparr>fdata = Some \<lparr>jpeg = Some [255, 216]\<rparr>, arrivedAt = 1020, startTime = 1020, endTime = 1021\<rparr>,
      \<lparr>fdata = Some \<lparr>jpeg = Some [255, 216]\<rparr>, arrivedAt = 1030, startTime = 1030, endTime = 1031\<rparr>,
      \<lparr>fdata = Some \<lparr>jpeg = Some [255, 216]\<rparr>, arrivedAt = 1050, startTime = 1050, endTime = 1051\<rparr>])
   = 4"
  by (simp add: publishCompressedImageFrame_def try_publish_def initialize_def
      new_consumer_def)

text \<open>
  C8: an attempt (a frame that passes both gates of an initialised consumer) ends with the
  processing flag clear, on the path where decoding and publishing return and on the path
  where one of them throws; on that path the exception is caught, the function returns,
  and the state differs from the one before only in \<open>lastPublishTime\<close>. The next frame
  is then published like any other: one that arrives no sooner than
  \<open>minPublishInterval\<close> after the attempt, is decodable and is taken by the sink, is
  published.
\<close>

theorem processing_flag_cleared:
  assumes "isInitialized s" and "publisher s" and "\<not> isProcessing s"
    and "\<not> of_int (arrivedAt a - lastPublishTime s) < minPublishInterval s"
  shows "\<not> isProcessing (publishCompressedImageFrame sink s a)
       \<and> (\<forall>e. try_publish sink (s\<lparr>isProcessing := True, lastPublishTime := arrivedAt a\<rparr>) a
                  = Inl e \<longrightarrow>
            publishCompressedImageFrame sink s a
              = s\<lparr>isProcessing := False, lastPublishTime := arrivedAt a\<rparr>)
       \<and> (\<forall>b fd bytes.
            \<not> of_int (arrivedAt b - arrivedAt a) < minPublishInterval s \<and>
            fdata b = Some fd \<and> jpeg fd = Some bytes \<and>
            sink (compressedImageMsg (arrivedAt b) bytes) \<longrightarrow>
            published (publishCompressedImageFrame sink
                         (publishCompressedImageFrame sink s a) b)
              = published (publishCompressedImageFrame sink s a)
                  @ [compressedImageMsg (arrivedAt b) bytes])"
proof -
  let ?s' = "publishCompressedImageFrame sink s a"
  note f = accepted_fields [OF assms, of sink]
  have next_ok: "published (publishCompressedImageFrame sink ?s' b)
              = published ?s' @ [compressedImageMsg (arrivedAt b) bytes]"
    if "\<not> of_int (arrivedAt b - arrivedAt a) < minPublishInterval s"
      and "fdata b = Some fd" and "jpeg fd = Some bytes"
      and "sink (compressedImageMsg (arrivedAt b) bytes)" for b fd bytes
  proof -
    have "publishCompressedImageFrame sink ?s' b =
           ?s'\<lparr>isProcessing := False, lastPublishTime := arrivedAt b,
             published := published ?s' @ [compressedImageMsg (arrivedAt b) bytes],
             lastProcessTime := endTime b - startTime b\<rparr>"
      using f that by (intro accepted_success) simp_all
    then show ?thesis by simp
  qed
  show ?thesis
    using f(1) accepted_failure [OF assms] next_ok by blast
qed

text \<open>A sink that throws for the frame stamped 1000 ms and takes the one stamped
  1100 ms.\<close>

theorem processing_flag_cleared_witness:
  "\<not> isProcessing (publishCompressedImageFrame (\<lambda>m. stamp_sec m \<noteq> 1 \<or> stamp_nanosec m \<noteq> 0)
        (initialize new_consumer)
        \<lparr>fdata = Some \<lparr>jpeg = Some [255, 216]\<rparr>, arrivedAt = 1000, startTime = 1000,
         endTime = 1001\<rparr>)
   \<and> published (publishCompressedImageFrame (\<lambda>m. stamp_sec m \<noteq> 1 \<or> stamp_nanosec m \<noteq> 0)
        (publishCompressedImageFrame (\<lambda>m. stamp_sec m \<noteq> 1 \<or> stamp_nanosec m \<noteq> 0)
           (initialize new_consumer)
           \<lparr>fdata = Some \<lparr>jpeg = Some [255, 216]\<rparr>, arrivedAt = 1000, startTime = 1000,
            endTime = 1001\<rparr>)
        \<lparr>fdata = Some \<lparr>jpeg = Some [255, 217]\<rparr>, arrivedAt = 1100, startTime = 1100,
         endTime = 1101\<rparr>)
     = [compressedImageMsg 1100 [255, 217]]"
proof -
  let ?sink = "\<lambda>m. stamp_sec m \<noteq> 1 \<or> stamp_nanosec m \<noteq> 0"
  let ?s = "initialize new_consumer"
  let ?a = "\<lparr>fdata = Some \<lparr>jpeg = Some [255, 216]\<rparr>, arrivedAt = 1000, startTime = 1000,
             endTime = 1001\<rparr>"
  let ?b = "\<lparr>fdata = Some \<lparr>jpeg = Some [255, 217]\<rparr>, arrivedAt = 1100, startTime = 1100,
             endTime = 1101\<rparr>"
  have h1: "isInitialized ?s" and h2: "publisher ?s" and h3: "\<not> isProcessing ?s"
    and h4: "\<not> of_int (arrivedAt ?a - lastPublishTime ?s) < minPublishInterval ?s"
    by (simp_all add: initialize_def new_consumer_def)
  note t = processing_flag_cleared [OF h1 h2 h3 h4, of ?sink]
  have fails: "try_publish ?sink (?s\<lparr>isProcessing := True, lastPublishTime := arrivedAt ?a\<rparr>) ?a
                 = Inl SinkError"
    by (simp add: try_publish_def compressedImageMsg_def js_rem_def)
  have after: "publishCompressedImageFrame ?sink ?s ?a
                 = ?s\<lparr>isProcessing := False, lastPublishTime := arrivedAt ?a\<rparr>"
    using t fails by blast
  have nxt: "\<not> of_int (arrivedAt ?b - arrivedAt ?a) < minPublishInterval ?s
       \<and> fdata ?b = Some \<lparr>jpeg = Some [255, 217]\<rparr>
       \<and> jpeg \<lparr>jpeg = Some [255, 217]\<rparr> = Some [255, 217]
       \<and> ?sink (compressedImageMsg (arrivedAt ?b) [255, 217])"
    by (simp add: initialize_def new_consumer_def compressedImageMsg_def js_rem_def)
  have "published (publishCompressedImageFrame ?sink (publishCompressedImageFrame ?sink ?s ?a) ?b)
          = published (publishCompressedImageFrame ?sink ?s ?a)
              @ [compressedImageMsg (arrivedAt ?b) [255, 217]]"
    using t nxt by blast
  moreover have "published (publishCompressedImageFrame ?sink ?s ?a) = []"
    unfolding after by (simp add: initialize_def new_consumer_def)
  moreover have "\<not> isProcessing (publishCompressedImageFrame ?sink ?s ?a)"
    using t by blast
  ultimately show ?thesis by simp
qed

text \<open>
  C9: an attempt sets \<open>lastPublishTime\<close> to its own time before decoding and
  publishing, and an exception in either does not take that back: nothing is published, and
  a frame that arrives less than \<open>minPublishInterval\<close> after the failed attempt is
  dropped by the rate limit and counted, as it would be after a publish.
\<close>

theorem failed_attempt_consumes_window:
  assumes "isInitialized s" and "publisher s" and "\<not> isProcessing s"
    and "\<not> of_int (arrivedAt a - lastPublishTime s) < minPublishInterval s"
    and "try_publish sink (s\<lparr>isProcessing := True, lastPublishTime := arrivedAt a\<rparr>) a = Inl e"
    and "of_int (arrivedAt b - arrivedAt a) < minPublishInterval s"
  shows "lastPublishTime (publishCompressedImageFrame sink s a) = arrivedAt a
       \<and> published (publishCompressedImageFrame sink s a) = published s
       \<and> publishCompressedImageFrame sink (publishCompressedImageFrame sink s a) b
           = (publishCompressedImageFrame sink s a)
               \<lparr>dropCount := dropCount (publishCompressedImageFrame sink s a) + 1\<rparr>"
proof -
  have fail: "publishCompressedImageFrame sink s a
                = s\<lparr>isProcessing := False, lastPublishTime := arrivedAt a\<rparr>"
    using assms(1-5) by (rule accepted_failure)
  show ?thesis
    unfolding fail using assms(1,2,6) by (simp add: rate_limited_drop)
qed

text \<open>A frame without \<open>imageData\<close> at 1000 ms, and a decodable one 50 ms later.\<close>

theorem failed_attempt_consumes_window_witness:
  "lastPublishTime (publishCompressedImageFrame (\<lambda>m. True) (initialize new_consumer)
       \<lparr>fdata = Some \<lparr>jpeg = None\<rparr>, arrivedAt = 1000, startTime = 1000, endTime = 1001\<rparr>)
     = 1000
   \<and> publishCompressedImageFrame (\<lambda>m. True)
       (publishCompressedImageFrame (\<lambda>m. True) (initialize new_consumer)
          \<lparr>fdata = Some \<lparr>jpeg = None\<rparr>, arrivedAt = 1000, startTime = 1000, endTime = 1001\<rparr>)
       \<lparr>fdata = Some \<lparr>jpeg = Some [255, 216]\<rparr>, arrivedAt = 1050, startTime = 1050,
        endTime = 1051\<rparr>
     = (initialize new_consumer)\<lparr>lastPublishTime := 1000, dropCount := 1\<rparr>"
proof -
  let ?s = "initialize new_consumer"
  let ?a = "\<lparr>fdata = Some \<lparr>jpeg = None\<rparr>, arrivedAt = 1000, startTime = 1000, endTime = 1001\<rparr>"
  let ?b = "\<lparr>fdata = Some \<lparr>jpeg = Some [255, 216]\<rparr>, arrivedAt = 1050, startTime = 1050,
             endTime = 1051\<rparr>"
  have h1: "isInitialized ?s" and h2: "publisher ?s" and h3: "\<not> isProcessing ?s"
    and h4: "\<not> of_int (arrivedAt ?a - lastPublishTime ?s) < minPublishInterval ?s"
    and h6: "of_int (arrivedAt ?b - arrivedAt ?a) < minPublishInterval ?s"
    by (simp_all add: initialize_def new_consumer_def)
  have h5: "try_publish (\<lambda>m. True) (?s\<lparr>isProcessing := True, lastPublishTime := arrivedAt ?a\<rparr>) ?a
              = Inl TypeError"
    by (simp add: try_publish_def)
  have after: "publishCompressedImageFrame (\<lambda>m. True) ?s ?a
                 = ?s\<lparr>isProcessing := False, lastPublishTime := arrivedAt ?a\<rparr>"
    using h1 h2 h3 h4 h5 by (rule accepted_failure)
  show ?thesis
    using failed_attempt_consumes_window [OF h1 h2 h3 h4 h5 h6]
    unfolding after by (simp add: initialize_def new_consumer_def)
qed


end
